theory Spec2Isabelle
  imports Main "HOL-Library.Word" "HOL-Library.Multiset"
begin

section \<open>fetch-gjs: a fetch-like function over a Soup session\<close>

text \<open>
  The development embeds \<^verbatim>\<open>src/index.mjs\<close>: the factory \<^verbatim>\<open>makeFetch(session)\<close>, the
  function it returns, the promise executor and the completion callback handed to
  \<^verbatim>\<open>session.send_and_read_async\<close>.

  A call either throws (before any promise exists) or returns a promise, which is
  pending, fulfilled with a reference to the response object, or rejected with the
  thrown value. The session's side of one exchange (what it hands to the completion
  callback) is an argument of the model; the messages it was given are logged in the
  world, and response objects live in a heap so that object identity can be stated.
\<close>

subsection \<open>JavaScript values\<close>

type_synonym byte = "8 word"

text \<open>
  The kinds of value a caller can pass as \<^verbatim>\<open>url\<close> or \<^verbatim>\<open>options.body\<close>. Numbers are
  integers or NaN (only their truthiness and their \<^verbatim>\<open>typeof\<close> are read); \<open>JBytes\<close> is a
  \<^verbatim>\<open>Uint8Array\<close>; \<open>JObj\<close> is any other object, with its own properties in insertion
  order.
\<close>

datatype jsval =
    JUndefined
  | JNull
  | JBool bool
  | JNum int
  | JNaN
  | JStr string
  | JBytes "byte list"
  | JObj "(string \<times> jsval) list"

fun truthy :: "jsval \<Rightarrow> bool" where
  "truthy JUndefined = False"
| "truthy JNull = False"
| "truthy (JBool b) = b"
| "truthy (JNum n) = (n \<noteq> 0)"
| "truthy JNaN = False"
| "truthy (JStr s) = (s \<noteq> [])"
| "truthy (JBytes bs) = True"
| "truthy (JObj ps) = True"

fun typeof :: "jsval \<Rightarrow> string" where
  "typeof JUndefined = ''undefined''"
| "typeof JNull = ''object''"
| "typeof (JBool b) = ''boolean''"
| "typeof (JNum n) = ''number''"
| "typeof JNaN = ''number''"
| "typeof (JStr s) = ''string''"
| "typeof (JBytes bs) = ''object''"
| "typeof (JObj ps) = ''object''"

fun instanceof_Uint8Array :: "jsval \<Rightarrow> bool" where
  "instanceof_Uint8Array (JBytes bs) = True"
| "instanceof_Uint8Array _ = False"

text \<open>
  A thrown value: an \<^verbatim>\<open>Error\<close> made by \<^verbatim>\<open>new Error(message, {cause})\<close>, a
  \<^verbatim>\<open>TypeError\<close> of the host, or an error of the GLib side (domain, code, message)
  raised by the client.
\<close>

datatype thrown =
    JsError string "jsval option"
  | TypeError string
  | GLibError string nat string

subsection \<open>Object.entries\<close>

text \<open>
  \<^verbatim>\<open>Object.entries\<close> lists an object's own properties in property order: first the keys
  that are array indices (canonical decimal numerals below \<open>2^32 - 1\<close>) in ascending
  numeric order, then every other string key in insertion order. An object is given
  by its properties in insertion order.
\<close>

definition is_digit :: "char \<Rightarrow> bool" where
  "is_digit c = (48 \<le> (of_char c :: nat) \<and> (of_char c :: nat) \<le> 57)"

definition digits_val :: "string \<Rightarrow> nat" where
  "digits_val s = foldl (\<lambda>n c. 10 * n + ((of_char c :: nat) - 48)) 0 s"

definition is_array_index :: "string \<Rightarrow> bool" where
  "is_array_index s =
     (s \<noteq> [] \<and> list_all is_digit s \<and> (s = ''0'' \<or> hd s \<noteq> CHR ''0'')
      \<and> digits_val s < 4294967295)"

definition Object_entries :: "(string \<times> 'v) list \<Rightarrow> (string \<times> 'v) list" where
  "Object_entries ps =
     sort_key (\<lambda>p. digits_val (fst p)) (filter (\<lambda>p. is_array_index (fst p)) ps)
     @ filter (\<lambda>p. \<not> is_array_index (fst p)) ps"

subsection \<open>The host runtime\<close>

text \<open>
  The standard facilities the code calls and does not define: \<^verbatim>\<open>URL.canParse\<close>,
  \<^verbatim>\<open>URL.parse\<close> (a parsed URL is represented by the string its \<^verbatim>\<open>toString()\<close> gives),
  \<^verbatim>\<open>String.prototype.toUpperCase\<close>, \<^verbatim>\<open>TextDecoder.decode\<close>, \<^verbatim>\<open>TextEncoder.encode\<close>,
  the \<^verbatim>\<open>toString()\<close> of the byte array that \<^verbatim>\<open>GLib.Bytes.get_data()\<close> returns,
  \<^verbatim>\<open>JSON.parse\<close>, which throws on malformed text, and the constructors run while the
  response object is built, each of which may throw: \<^verbatim>\<open>new Headers()\<close>, the \<^verbatim>\<open>append\<close>
  of that object (given the lines appended so far), and \<^verbatim>\<open>new ReadableStream\<close> with a
  \<^verbatim>\<open>start\<close> that enqueues one chunk and closes (giving the chunks queued).
\<close>

record host =
  URL_canParse :: "jsval \<Rightarrow> bool"
  URL_parse :: "jsval \<Rightarrow> string option"
  toUpperCase :: "string \<Rightarrow> string"
  TextDecoder_decode :: "byte list \<Rightarrow> string"
  TextEncoder_encode :: "string \<Rightarrow> byte list"
  Uint8Array_toString :: "byte list \<Rightarrow> string"
  JSON_parse :: "string \<Rightarrow> thrown + jsval"
  new_Headers :: "thrown + (string \<times> string) list"
  Headers_append :: "(string \<times> string) list \<Rightarrow> string \<Rightarrow> string
                       \<Rightarrow> thrown + (string \<times> string) list"
  new_ReadableStream :: "byte list \<Rightarrow> thrown + byte list list"

subsection \<open>Requests, completions, responses\<close>

text \<open>The recognised fields of \<^verbatim>\<open>options\<close>; an absent field is \<open>None\<close> or \<open>JUndefined\<close>.\<close>

record request_init =
  init_method :: "string option"
  init_headers :: "(string \<times> string) list option"
  init_body :: jsval

text \<open>
  The \<^verbatim>\<open>Soup.Message\<close> as the code builds it. \<open>request_body\<close> is the content type and
  the bytes given to \<^verbatim>\<open>set_request_body_from_bytes\<close>, and \<open>None\<close> when that is never
  called. The message's header collection is the list of its lines; its \<^verbatim>\<open>append\<close>
  adds one at the end.
\<close>

record soup_message =
  msg_method :: string
  msg_uri :: string
  request_headers :: "(string \<times> string) list"
  request_body :: "(string \<times> byte list) option"

definition headers_append :: "(string \<times> string) list \<Rightarrow> string \<Rightarrow> string \<Rightarrow> (string \<times> string) list" where
  "headers_append hdrs name val = hdrs @ [(name, val)]"

text \<open>A \<^verbatim>\<open>GLib.Bytes\<close>, by what its \<^verbatim>\<open>get_data()\<close> returns (\<open>None\<close> for null).\<close>

datatype gbytes = GBytes (get_data: "byte list option")

text \<open>
  What the client hands to the completion callback: whether the callback's first
  argument (the source object) is non-null, what \<^verbatim>\<open>send_and_read_finish\<close> does (throws,
  or returns a possibly null \<^verbatim>\<open>GLib.Bytes\<close>), and the status line and response headers
  the message then holds.
\<close>

record completion =
  source_present :: bool
  finish :: "thrown + gbytes option"
  status_code :: nat
  reason_phrase :: string
  response_headers :: "(string \<times> string) list"

text \<open>A session answers a message with a completion, or never calls back.\<close>

type_synonym session = "soup_message \<Rightarrow> completion option"

text \<open>
  The response object literal. \<open>headers\<close> is the \<^verbatim>\<open>Headers\<close> object that
  \<^verbatim>\<open>responseHeaders()\<close> returns and \<open>resp_body\<close> the stream; \<open>responseBody\<close> is the
  constant the closures \<^verbatim>\<open>text\<close>, \<^verbatim>\<open>json\<close>, \<^verbatim>\<open>arrayBuffer\<close>, \<^verbatim>\<open>blob\<close>, \<^verbatim>\<open>formData\<close>
  and the stream's \<^verbatim>\<open>start\<close> capture; \<open>clone_target\<close> is the reference the closure
  \<^verbatim>\<open>clone\<close> captures (the binding \<^verbatim>\<open>response\<close>).
\<close>

record response =
  ok :: bool
  status :: nat
  statusText :: string
  headers :: "(string \<times> string) list"
  redirected :: bool
  resp_type :: string
  resp_url :: string
  bodyUsed :: bool
  responseBody :: string
  clone_target :: nat
  resp_body :: "byte list list"

record world =
  sent :: "soup_message list"
  heap :: "response list"

datatype promise = Pending | Fulfilled nat | Rejected thrown

datatype call_result = Threw thrown | Returned promise

fun is_rejected :: "call_result \<Rightarrow> bool" where
  "is_rejected (Returned (Rejected e)) = True"
| "is_rejected _ = False"

subsection \<open>The completion callback\<close>

text \<open>
  \<^verbatim>\<open>responseHeaders()\<close>: a new \<^verbatim>\<open>Headers\<close> object, and one \<^verbatim>\<open>append\<close> for each line
  that \<^verbatim>\<open>message.response_headers.foreach\<close> visits. A throw of \<^verbatim>\<open>append\<close> ends the
  loop and leaves the function.
\<close>

fun foreach_append ::
  "host \<Rightarrow> (string \<times> string) list \<Rightarrow> (string \<times> string) list
     \<Rightarrow> thrown + (string \<times> string) list" where
  "foreach_append h out [] = Inr out"
| "foreach_append h out ((name, val) # rest) =
     (case Headers_append h out name val of
        Inl e \<Rightarrow> Inl e
      | Inr out' \<Rightarrow> foreach_append h out' rest)"

definition responseHeaders :: "host \<Rightarrow> completion \<Rightarrow> thrown + (string \<times> string) list" where
  "responseHeaders h c =
     (case new_Headers h of
        Inl e \<Rightarrow> Inl e
      | Inr out \<Rightarrow> foreach_append h out (response_headers c))"

text \<open>
  The body of the \<^verbatim>\<open>try\<close> block: the value it throws, or the response object it builds.
  \<open>self\<close> is the address the new object will have. The fields of the literal are
  evaluated in the order written, so \<^verbatim>\<open>responseHeaders()\<close> runs before
  \<^verbatim>\<open>new ReadableStream\<close>.
\<close>

definition callback_try :: "host \<Rightarrow> string \<Rightarrow> completion \<Rightarrow> nat \<Rightarrow> thrown + response" where
  "callback_try h urlString c self =
     (if \<not> source_present c then Inl (JsError ''Session is required'' None)
      else case finish c of
        Inl e \<Rightarrow> Inl e
      | Inr bytes \<Rightarrow>
          let responseBody =
                (case bytes of
                   None \<Rightarrow> ''''
                 | Some b \<Rightarrow> (case get_data b of
                                None \<Rightarrow> ''''
                              | Some d \<Rightarrow> Uint8Array_toString h d))
          in (case responseHeaders h c of
                Inl e \<Rightarrow> Inl e
              | Inr hdrs \<Rightarrow>
                  (case new_ReadableStream h (TextEncoder_encode h responseBody) of
                     Inl e \<Rightarrow> Inl e
                   | Inr stream \<Rightarrow>
                       Inr \<lparr> ok = (status_code c \<ge> 200 \<and> status_code c < 300),
                             status = status_code c,
                             statusText = reason_phrase c,
                             headers = hdrs,
                             redirected = False,
                             resp_type = ''default'',
                             resp_url = urlString,
                             bodyUsed = True,
                             responseBody = responseBody,
                             clone_target = self,
                             resp_body = stream \<rparr>)))"

text \<open>\<^verbatim>\<open>try { ...; resolve(response) } catch (e) { reject(e) }\<close>\<close>

definition callback :: "host \<Rightarrow> string \<Rightarrow> completion \<Rightarrow> world \<Rightarrow> promise \<times> world" where
  "callback h urlString c w =
     (case callback_try h urlString c (length (heap w)) of
        Inl e \<Rightarrow> (Rejected e, w)
      | Inr r \<Rightarrow> (Fulfilled (length (heap w)), w\<lparr>heap := heap w @ [r]\<rparr>))"

subsection \<open>The promise executor and the returned function\<close>

text \<open>
  \<^verbatim>\<open>Soup.Message.new\<close> is taken to succeed.

  The executor first fills a local \<^verbatim>\<open>Soup.MessageHeaders\<close> from \<^verbatim>\<open>options.headers\<close>
  that nothing reads afterwards; the headers that are sent are the ones appended to
  \<^verbatim>\<open>message.request_headers\<close> by the second loop, which is the one embedded below.
\<close>

text \<open>
  The coercion of \<^verbatim>\<open>options.body\<close>: a rejection, or the text (\<open>None\<close> for null). The
  cases \<open>JStr\<close> and \<open>JBytes\<close> are the tests \<^verbatim>\<open>typeof options.body === "string"\<close> and
  \<^verbatim>\<open>options.body instanceof Uint8Array\<close>, in that order.
\<close>

definition coerce_body :: "host \<Rightarrow> jsval \<Rightarrow> thrown + string option" where
  "coerce_body h b =
     (if truthy b then
        (case b of
           JStr s \<Rightarrow> Inr (Some s)
         | JBytes bs \<Rightarrow> Inr (Some (TextDecoder_decode h bs))
         | _ \<Rightarrow> Inl (JsError (''Unsupported body type. Expected a string or Uint8Array, got ''
                               @ typeof b @ ''.'') (Some b)))
      else Inr None)"

definition build_message :: "host \<Rightarrow> string \<Rightarrow> request_init \<Rightarrow> string option \<Rightarrow> soup_message" where
  "build_message h urlString options body =
     (let method = (case init_method options of
                      Some m \<Rightarrow> if m \<noteq> [] then toUpperCase h m else ''GET''
                    | None \<Rightarrow> ''GET'');
          message = \<lparr> msg_method = method, msg_uri = urlString,
                      request_headers = [], request_body = None \<rparr>;
          message = message\<lparr> request_headers :=
                      foldl (\<lambda>hdrs (key, val). headers_append hdrs key val)
                        (request_headers message)
                        (Object_entries (case init_headers options of
                                           Some hs \<Rightarrow> hs | None \<Rightarrow> [])) \<rparr>
      in case body of
           Some s \<Rightarrow> if s \<noteq> []
                     then message\<lparr> request_body := Some (''text/plain'', TextEncoder_encode h s) \<rparr>
                     else message
         | None \<Rightarrow> message)"

definition executor :: "host \<Rightarrow> session \<Rightarrow> string \<Rightarrow> request_init \<Rightarrow> world \<Rightarrow> promise \<times> world" where
  "executor h session urlString options w =
     (case coerce_body h (init_body options) of
        Inl e \<Rightarrow> (Rejected e, w)
      | Inr body \<Rightarrow>
          let message = build_message h urlString options body;
              w1 = w\<lparr>sent := sent w @ [message]\<rparr>
          in (case session message of
                None \<Rightarrow> (Pending, w1)
              | Some c \<Rightarrow> callback h urlString c w1))"

definition fetch :: "host \<Rightarrow> session \<Rightarrow> jsval \<Rightarrow> request_init \<Rightarrow> world \<Rightarrow> call_result \<times> world" where
  "fetch h session url options w =
     (case (if URL_canParse h url then URL_parse h url else None) of
        None \<Rightarrow>
          (Threw (JsError (''Invalid URL. Expected a string or URL object, got '' @ typeof url
                           @ ''. This failed because URL.canParse returned false.'') None), w)
      | Some urlString \<Rightarrow>
          (case executor h session urlString options w of
             (p, w') \<Rightarrow> (Returned p, w')))"

definition makeFetch ::
  "host \<Rightarrow> session option \<Rightarrow> thrown + (jsval \<Rightarrow> request_init \<Rightarrow> world \<Rightarrow> call_result \<times> world)" where
  "makeFetch h session =
     (case session of
        None \<Rightarrow> Inl (JsError ''Session is required'' None)
      | Some s \<Rightarrow> Inr (fetch h s))"

subsection \<open>Accessors of a response object\<close>

text \<open>
  A call of an accessor through a reference: the value the returned promise settles
  with, and the world after the call.
\<close>

definition text_call :: "nat \<Rightarrow> world \<Rightarrow> string \<times> world" where
  "text_call a w = (responseBody (heap w ! a), w)"

definition json_call :: "host \<Rightarrow> nat \<Rightarrow> world \<Rightarrow> (thrown + jsval) \<times> world" where
  "json_call h a w = (JSON_parse h (responseBody (heap w ! a)), w)"

definition clone_call :: "nat \<Rightarrow> world \<Rightarrow> nat \<times> world" where
  "clone_call a w = (clone_target (heap w ! a), w)"

text \<open>A caller making \<open>n\<close> calls one after the other, collecting what they give.\<close>

fun repeat_call :: "(world \<Rightarrow> 'a \<times> world) \<Rightarrow> nat \<Rightarrow> world \<Rightarrow> 'a list \<times> world" where
  "repeat_call f 0 w = ([], w)"
| "repeat_call f (Suc n) w =
     (case f w of (x, w1) \<Rightarrow> (case repeat_call f n w1 of (xs, w2) \<Rightarrow> (x # xs, w2)))"

subsection \<open>A concrete host and client\<close>

text \<open>
  For running the model on concrete calls: a host whose text is ASCII (one byte per
  character, in both directions, also for the \<^verbatim>\<open>toString()\<close> of a byte array that the
  GLib side returns), whose URL parser accepts the strings that start with
  \<^verbatim>\<open>https://\<close> and prints them back unchanged, and whose \<^verbatim>\<open>JSON.parse\<close> knows
  \<^verbatim>\<open>{}\<close>, \<^verbatim>\<open>null\<close> and unsigned decimal numerals, whose \<^verbatim>\<open>Headers.append\<close> throws a
  \<^verbatim>\<open>TypeError\<close> unless the name is a non-empty HTTP token and the value has no NUL, CR
  or LF, and whose other constructors succeed; and a client that answers every
  message with the same completion.
\<close>

definition is_tchar :: "char \<Rightarrow> bool" where
  "is_tchar c =
     (let n = (of_char c :: nat)
      in (48 \<le> n \<and> n \<le> 57) \<or> (65 \<le> n \<and> n \<le> 90) \<or> (97 \<le> n \<and> n \<le> 122)
         \<or> n \<in> {33, 35, 36, 37, 38, 39, 42, 43, 45, 46, 94, 95, 96, 124, 126})"

definition valid_header :: "string \<Rightarrow> string \<Rightarrow> bool" where
  "valid_header name val =
     (name \<noteq> [] \<and> list_all is_tchar name
      \<and> list_all (\<lambda>c. (of_char c :: nat) \<notin> {0, 10, 13}) val)"

definition ascii_upper :: "char \<Rightarrow> char" where
  "ascii_upper c = (if 97 \<le> (of_char c :: nat) \<and> (of_char c :: nat) \<le> 122
                    then char_of ((of_char c :: nat) - 32) else c)"

definition https_url :: "jsval \<Rightarrow> bool" where
  "https_url v = (case v of JStr s \<Rightarrow> take 8 s = ''https://'' \<and> 8 < length s | _ \<Rightarrow> False)"

definition ascii_host :: host where
  "ascii_host =
     \<lparr> URL_canParse = https_url,
       URL_parse = (\<lambda>v. case v of JStr s \<Rightarrow> if https_url v then Some s else None | _ \<Rightarrow> None),
       toUpperCase = map ascii_upper,
       TextDecoder_decode = map (\<lambda>b. char_of (unat b)),
       TextEncoder_encode = map (\<lambda>c. of_nat (of_char c)),
       Uint8Array_toString = map (\<lambda>b. char_of (unat b)),
       JSON_parse = (\<lambda>s. if s = ''{}'' then Inr (JObj [])
                          else if s = ''null'' then Inr JNull
                          else if s \<noteq> [] \<and> list_all is_digit s then Inr (JNum (int (digits_val s)))
                          else Inl (JsError ''SyntaxError'' None)),
       new_Headers = Inr [],
       Headers_append = (\<lambda>out name val.
                           if valid_header name val then Inr (out @ [(name, val)])
                           else Inl (TypeError ''Invalid header name or value'')),
       new_ReadableStream = (\<lambda>chunk. Inr [chunk]) \<rparr>"

definition w0 :: world where
  "w0 = \<lparr> sent = [], heap = [] \<rparr>"

definition completed :: "nat \<Rightarrow> string \<Rightarrow> gbytes option \<Rightarrow> completion" where
  "completed code reason bytes =
     \<lparr> source_present = True, finish = Inr bytes, status_code = code,
       reason_phrase = reason, response_headers = [(''Content-Type'', ''application/json'')] \<rparr>"

definition failed :: "thrown \<Rightarrow> completion" where
  "failed e =
     \<lparr> source_present = True, finish = Inl e, status_code = 0,
       reason_phrase = [], response_headers = [] \<rparr>"

definition reply :: "completion \<Rightarrow> session" where
  "reply c = (\<lambda>message. Some c)"

text \<open>The default \<^verbatim>\<open>options = {}\<close>.\<close>

definition no_options :: request_init where
  "no_options = \<lparr> init_method = None, init_headers = None, init_body = JUndefined \<rparr>"

section \<open>Properties\<close>

subsection \<open>Shared lemmas\<close>

lemma headers_fold:
  "foldl (\<lambda>hdrs (key, val). headers_append hdrs key val) acc xs = acc @ xs"
  by (induction xs arbitrary: acc) (auto simp: headers_append_def)

lemma build_message_headers:
  "request_headers (build_message h u options body)
     = Object_entries (case init_headers options of Some hs \<Rightarrow> hs | None \<Rightarrow> [])"
  by (simp add: build_message_def headers_fold Let_def split: option.splits)

lemma build_message_body:
  "request_body (build_message h u options body)
     = (case body of
          Some s \<Rightarrow> if s \<noteq> [] then Some (''text/plain'', TextEncoder_encode h s) else None
        | None \<Rightarrow> None)"
  by (simp add: build_message_def Let_def split: option.splits)

lemma fetch_parsed:
  assumes "URL_canParse h url" and "URL_parse h url = Some u"
  shows "fetch h session url options w
           = (Returned (fst (executor h session u options w)),
              snd (executor h session u options w))"
  using assms by (simp add: fetch_def split: prod.splits)

lemma executor_sends:
  assumes "coerce_body h (init_body options) = Inr body"
  shows "sent (snd (executor h session u options w))
           = sent w @ [build_message h u options body]"
  using assms
  by (simp add: executor_def callback_def Let_def split: option.splits sum.splits)

lemma executor_completed:
  assumes "coerce_body h (init_body options) = Inr body"
      and "session (build_message h u options body) = Some c"
  shows "executor h session u options w
           = callback h u c (w\<lparr>sent := sent w @ [build_message h u options body]\<rparr>)"
  using assms by (simp add: executor_def Let_def)

lemma fetch_fulfilledE:
  assumes "fetch h session url options w = (Returned (Fulfilled a), w')"
  obtains u body c r where
    "URL_canParse h url" "URL_parse h url = Some u"
    "coerce_body h (init_body options) = Inr body"
    "session (build_message h u options body) = Some c"
    "callback_try h u c (length (heap w)) = Inr r"
    "a = length (heap w)"
    "heap w' = heap w @ [r]"
    "sent w' = sent w @ [build_message h u options body]"
proof -
  from assms have cp: "URL_canParse h url"
    by (cases "URL_canParse h url") (simp_all add: fetch_def)
  with assms obtain u where u: "URL_parse h url = Some u"
    by (cases "URL_parse h url") (simp_all add: fetch_def)
  from assms cp u have ex: "executor h session u options w = (Fulfilled a, w')"
    by (simp add: fetch_def split: prod.splits)
  then obtain body where b: "coerce_body h (init_body options) = Inr body"
    by (cases "coerce_body h (init_body options)") (simp_all add: executor_def)
  define m where "m = build_message h u options body"
  define w1 where "w1 = w\<lparr>sent := sent w @ [m]\<rparr>"
  from ex b obtain c where c: "session m = Some c"
    by (cases "session m") (simp_all add: executor_def Let_def m_def)
  from ex b c have cb: "callback h u c w1 = (Fulfilled a, w')"
    by (simp add: executor_def Let_def m_def w1_def)
  have hw1: "heap w1 = heap w" and sw1: "sent w1 = sent w @ [m]"
    by (simp_all add: w1_def)
  from cb obtain r where r: "callback_try h u c (length (heap w1)) = Inr r"
    by (cases "callback_try h u c (length (heap w1))") (simp_all add: callback_def)
  from cb r have a: "a = length (heap w1)" and w': "w' = w1\<lparr>heap := heap w1 @ [r]\<rparr>"
    by (simp_all add: callback_def)
  from w' have "heap w' = heap w @ [r]" and "sent w' = sent w @ [m]"
    by (simp_all add: hw1 sw1)
  with cp u b c r a show thesis
    unfolding m_def hw1 by (rule that)
qed

lemma repeat_call_fixed:
  assumes "f w = (x, w)"
  shows "repeat_call f n w = (replicate n x, w)"
  using assms by (induction n) auto

lemma makeFetch_session:
  "makeFetch h (Some session) = Inr (fetch h session)"
  by (simp add: makeFetch_def)

lemma callback_try_fields:
  assumes "callback_try h u c self = Inr r"
  shows "source_present c"
    and "status r = status_code c"
    and "ok r = (200 \<le> status_code c \<and> status_code c < 300)"
    and "clone_target r = self"
    and "\<exists>bytes. finish c = Inr bytes \<and> responseBody r =
           (case bytes of
              None \<Rightarrow> []
            | Some b \<Rightarrow> (case get_data b of None \<Rightarrow> [] | Some d \<Rightarrow> Uint8Array_toString h d))"
  using assms
  by (auto simp: callback_try_def Let_def split: if_splits sum.splits)

lemma fetch_completed:
  assumes "URL_canParse h url" and "URL_parse h url = Some u"
      and "coerce_body h (init_body options) = Inr body"
      and "session (build_message h u options body) = Some c"
  shows "fetch h session url options w
           = (case callback h u c (w\<lparr>sent := sent w @ [build_message h u options body]\<rparr>) of
                (p, w') \<Rightarrow> (Returned p, w'))"
  using assms by (simp add: fetch_def executor_completed)

lemma Object_entries_mset:
  "mset (Object_entries ps) = mset ps"
  by (simp add: Object_entries_def)

lemma Object_entries_no_index:
  assumes "\<forall>p \<in> set ps. \<not> is_array_index (fst p)"
  shows "Object_entries ps = ps"
proof -
  from assms have "filter (\<lambda>p. is_array_index (fst p)) ps = []"
    by (simp add: filter_empty_conv)
  moreover from assms have "filter (\<lambda>p. \<not> is_array_index (fst p)) ps = ps"
    by (simp add: filter_id_conv)
  ultimately show ?thesis
    by (simp add: Object_entries_def)
qed

lemma text_call_fixed:
  "text_call a w = (responseBody (heap w ! a), w)"
  by (simp add: text_call_def)

lemma json_call_fixed:
  "json_call h a w = (JSON_parse h (responseBody (heap w ! a)), w)"
  by (simp add: json_call_def)

lemma build_message_init_body:
  "build_message h u (options\<lparr>init_body := b\<rparr>) body = build_message h u options body"
  by (simp add: build_message_def)

lemma ascii_responseHeaders:
  "responseHeaders ascii_host (completed code reason bytes)
     = Inr [(''Content-Type'', ''application/json'')]"
  by (simp add: responseHeaders_def ascii_host_def completed_def valid_header_def
      is_tchar_def)

lemma w0_fields:
  "sent w0 = []" "heap w0 = []"
  by (simp_all add: w0_def)

text \<open>The concrete client on a plain GET of \<^verbatim>\<open>https://x/y\<close>.\<close>

lemma run_get:
  "fetch ascii_host (reply (completed code reason bytes)) (JStr ''https://x/y'') no_options w0
     = (Returned (Fulfilled 0),
        \<lparr> sent = [\<lparr> msg_method = ''GET'', msg_uri = ''https://x/y'',
                     request_headers = [], request_body = None \<rparr>],
          heap = [\<lparr> ok = (200 \<le> code \<and> code < 300), status = code, statusText = reason,
                     headers = [(''Content-Type'', ''application/json'')],
                     redirected = False, resp_type = ''default'', resp_url = ''https://x/y'',
                     bodyUsed = True,
                     responseBody = (case bytes of
                                       None \<Rightarrow> []
                                     | Some b \<Rightarrow> (case get_data b of
                                                    None \<Rightarrow> []
                                                  | Some d \<Rightarrow> map (\<lambda>b. char_of (unat b)) d)),
                     clone_target = 0,
                     resp_body = [map (\<lambda>c. of_nat (of_char c))
                                    (case bytes of
                                       None \<Rightarrow> []
                                     | Some b \<Rightarrow> (case get_data b of
                                                    None \<Rightarrow> []
                                                  | Some d \<Rightarrow> map (\<lambda>b. char_of (unat b)) d))]
                   \<rparr>] \<rparr>)"
  by (simp add: fetch_def executor_def coerce_body_def build_message_def callback_def
      callback_try_def responseHeaders_def valid_header_def is_tchar_def headers_append_def
      Object_entries_def ascii_host_def https_url_def reply_def completed_def no_options_def
      w0_def Let_def split: option.splits)

text \<open>
  A sample exchange: \<^verbatim>\<open>{method: "post", headers: {"X": "1"}, body: "z"}\<close> answered with
  status 200 and the body \<^verbatim>\<open>{}\<close>.
\<close>

lemma run_post:
  "fetch ascii_host (reply (completed 200 ''OK'' (Some (GBytes (Some [0x7B, 0x7D])))))
     (JStr ''https://x/y'')
     \<lparr> init_method = Some ''post'', init_headers = Some [(''X'', ''1'')],
       init_body = JStr ''z'' \<rparr> w0
     = (Returned (Fulfilled 0),
        \<lparr> sent = [\<lparr> msg_method = ''POST'', msg_uri = ''https://x/y'',
                     request_headers = [(''X'', ''1'')],
                     request_body = Some (''text/plain'', [0x7A]) \<rparr>],
          heap = [\<lparr> ok = True, status = 200, statusText = ''OK'',
                     headers = [(''Content-Type'', ''application/json'')],
                     redirected = False, resp_type = ''default'', resp_url = ''https://x/y'',
                     bodyUsed = True, responseBody = ''{}'', clone_target = 0,
                     resp_body = [[0x7B, 0x7D]] \<rparr>] \<rparr>)"
  by (simp add: fetch_def executor_def coerce_body_def build_message_def callback_def
      callback_try_def responseHeaders_def valid_header_def is_tchar_def headers_append_def
      Object_entries_def is_array_index_def is_digit_def
      ascii_host_def https_url_def ascii_upper_def reply_def completed_def w0_def Let_def
      char_of_def bit_0)

subsection \<open>The response body\<close>

text \<open>
  C1. When the exchange succeeds and \<^verbatim>\<open>send_and_read_finish\<close> returned a byte buffer
  with data \<open>d\<close>, the text the response object holds is the host's conversion of the
  whole of \<open>d\<close> to text, and every one of any number of successive \<^verbatim>\<open>text()\<close> calls
  gives exactly that text and leaves the world as it was.
\<close>

theorem text_is_decoded_buffer:
  assumes "fetch h session url options w = (Returned (Fulfilled a), w')"
      and "session (last (sent w')) = Some c"
      and "finish c = Inr (Some (GBytes (Some d)))"
  shows "responseBody (heap w' ! a) = Uint8Array_toString h d
         \<and> repeat_call (text_call a) n w' = (replicate n (Uint8Array_toString h d), w')"
proof -
  from assms(1) obtain u body c' r where
      c': "session (build_message h u options body) = Some c'"
      and r: "callback_try h u c' (length (heap w)) = Inr r"
      and a: "a = length (heap w)"
      and hp: "heap w' = heap w @ [r]"
      and st: "sent w' = sent w @ [build_message h u options body]"
    by (rule fetch_fulfilledE)
  from st c' assms(2) have "c' = c" by simp
  with callback_try_fields(5)[OF r] assms(3)
  have "responseBody r = Uint8Array_toString h d" by auto
  moreover from a hp have "heap w' ! a = r" by simp
  ultimately have body: "responseBody (heap w' ! a) = Uint8Array_toString h d" by simp
  then have "text_call a w' = (Uint8Array_toString h d, w')"
    by (simp add: text_call_fixed)
  then have "repeat_call (text_call a) n w' = (replicate n (Uint8Array_toString h d), w')"
    by (rule repeat_call_fixed)
  with body show ?thesis by simp
qed

theorem text_is_decoded_buffer_witness:
  "responseBody (heap (snd (fetch ascii_host
       (reply (completed 200 ''OK'' (Some (GBytes (Some [0x7B, 0x7D])))))
       (JStr ''https://x/y'') no_options w0)) ! 0) = ''{}''
   \<and> fst (repeat_call (text_call 0) 2 (snd (fetch ascii_host
       (reply (completed 200 ''OK'' (Some (GBytes (Some [0x7B, 0x7D])))))
       (JStr ''https://x/y'') no_options w0))) = [''{}'', ''{}'']"
proof -
  let ?c = "completed 200 ''OK'' (Some (GBytes (Some [0x7B, 0x7D])))"
  obtain w' where run: "fetch ascii_host (reply ?c) (JStr ''https://x/y'') no_options w0
                          = (Returned (Fulfilled 0), w')"
    by (simp add: run_get)
  have c: "reply ?c (last (sent w')) = Some ?c"
    by (simp add: reply_def)
  have f: "finish ?c = Inr (Some (GBytes (Some [0x7B, 0x7D])))"
    by (simp add: completed_def)
  have d: "Uint8Array_toString ascii_host [0x7B, 0x7D] = ''{}''"
    by (simp add: ascii_host_def char_of_def bit_0)
  from text_is_decoded_buffer [OF run c f, of 2] show ?thesis
    by (simp add: run d numeral_2_eq_2)
qed

text \<open>
  C10, as the code has it. When the exchange completes and \<^verbatim>\<open>send_and_read_finish\<close>
  returns null, or a buffer whose \<^verbatim>\<open>get_data()\<close> is null, or a buffer with an empty
  data array that the host prints as the empty string, and the rest of the \<^verbatim>\<open>try\<close>
  block does not throw (\<^verbatim>\<open>responseHeaders()\<close> returns and the body stream is
  constructed), the promise is fulfilled and the text the response object holds is
  the empty string.
\<close>

theorem empty_buffer_resolves_with_empty_text:
  assumes "URL_canParse h url" and "URL_parse h url = Some u"
      and "coerce_body h (init_body options) = Inr body"
      and "session (build_message h u options body) = Some c"
      and "source_present c"
      and "finish c = Inr None \<or> finish c = Inr (Some (GBytes None))
           \<or> (finish c = Inr (Some (GBytes (Some []))) \<and> Uint8Array_toString h [] = [])"
      and "responseHeaders h c = Inr hdrs"
      and "new_ReadableStream h (TextEncoder_encode h []) = Inr stream"
  shows "fst (fetch h session url options w) = Returned (Fulfilled (length (heap w)))
         \<and> responseBody (heap (snd (fetch h session url options w)) ! length (heap w)) = []"
proof -
  from assms(5-8) obtain r where
      r: "callback_try h u c (length (heap w)) = Inr r" and "responseBody r = []"
    by (auto simp: callback_try_def)
  then show ?thesis
    by (simp add: fetch_completed [where session = session, OF assms(1-4)] callback_def)
qed

theorem empty_buffer_resolves_with_empty_text_witness:
  "fetch ascii_host (reply (completed 200 ''OK'' None)) (JStr ''https://x/y'') no_options w0
     = (Returned (Fulfilled 0),
        \<lparr> sent = [\<lparr> msg_method = ''GET'', msg_uri = ''https://x/y'',
                     request_headers = [], request_body = None \<rparr>],
          heap = [\<lparr> ok = True, status = 200, statusText = ''OK'',
                     headers = [(''Content-Type'', ''application/json'')],
                     redirected = False, resp_type = ''default'', resp_url = ''https://x/y'',
                     bodyUsed = True, responseBody = [], clone_target = 0,
                     resp_body = [[]] \<rparr>] \<rparr>)
   \<and> responseBody (heap (snd (fetch ascii_host (reply (completed 200 ''OK''
         (Some (GBytes None)))) (JStr ''https://x/y'') no_options w0)) ! 0) = []"
proof -
  have p: "URL_canParse ascii_host (JStr ''https://x/y'')"
      "URL_parse ascii_host (JStr ''https://x/y'') = Some ''https://x/y''"
      "coerce_body ascii_host (init_body no_options) = Inr None"
    by (simp_all add: ascii_host_def https_url_def coerce_body_def no_options_def)
  let ?s1 = "reply (completed 200 ''OK'' None)"
  let ?s2 = "reply (completed 200 ''OK'' (Some (GBytes None)))"
  have s: "reply c (build_message ascii_host ''https://x/y'' no_options None) = Some c" for c
    by (simp add: reply_def)
  have sp: "source_present (completed 200 ''OK'' bytes)" for bytes
    by (simp add: completed_def)
  have "finish (completed 200 ''OK'' None) = Inr None"
    by (simp add: completed_def)
  then have f1: "finish (completed 200 ''OK'' None) = Inr None
      \<or> finish (completed 200 ''OK'' None) = Inr (Some (GBytes None))
      \<or> (finish (completed 200 ''OK'' None) = Inr (Some (GBytes (Some [])))
          \<and> Uint8Array_toString ascii_host [] = [])"
    by (rule disjI1)
  have "finish (completed 200 ''OK'' (Some (GBytes None))) = Inr (Some (GBytes None))"
    by (simp add: completed_def)
  then have f2: "finish (completed 200 ''OK'' (Some (GBytes None))) = Inr None
      \<or> finish (completed 200 ''OK'' (Some (GBytes None))) = Inr (Some (GBytes None))
      \<or> (finish (completed 200 ''OK'' (Some (GBytes None))) = Inr (Some (GBytes (Some [])))
          \<and> Uint8Array_toString ascii_host [] = [])"
    by simp
  have st: "new_ReadableStream ascii_host (TextEncoder_encode ascii_host []) = Inr [[]]"
    by (simp add: ascii_host_def)
  from empty_buffer_resolves_with_empty_text
         [where session = ?s1 and w = w0, OF p s sp f1 ascii_responseHeaders st]
       empty_buffer_resolves_with_empty_text
         [where session = ?s2 and w = w0, OF p s sp f2 ascii_responseHeaders st]
  show ?thesis
    by (simp add: run_get w0_fields)
qed

text \<open>
  C10, as stated, fails: with a null byte buffer and a response header line that the
  host's \<^verbatim>\<open>Headers.append\<close> refuses, the \<^verbatim>\<open>try\<close> block throws after the body text is
  computed and the promise is rejected with that \<^verbatim>\<open>TypeError\<close>.
\<close>

theorem null_buffer_with_refused_header_rejects:
  "finish ((completed 200 ''OK'' None)\<lparr>response_headers := [(''Bad Name'', ''x'')]\<rparr>) = Inr None
   \<and> fetch ascii_host
       (reply ((completed 200 ''OK'' None)\<lparr>response_headers := [(''Bad Name'', ''x'')]\<rparr>))
       (JStr ''https://x/y'') no_options w0
     = (Returned (Rejected (TypeError ''Invalid header name or value'')),
        \<lparr> sent = [\<lparr> msg_method = ''GET'', msg_uri = ''https://x/y'',
                     request_headers = [], request_body = None \<rparr>],
          heap = [] \<rparr>)"
  by (simp add: fetch_def executor_def coerce_body_def build_message_def callback_def
      callback_try_def responseHeaders_def valid_header_def is_tchar_def headers_append_def
      Object_entries_def ascii_host_def https_url_def reply_def completed_def no_options_def
      w0_def Let_def)

subsection \<open>Status and accessors\<close>

text \<open>
  C5. For every fulfilled promise the response object's \<open>status\<close> is the status code
  the message holds at completion and \<open>ok\<close> equals \<open>200 \<le> status \<and> status < 300\<close>; so
  \<open>ok\<close> is false for status 404 and true for status 204.
\<close>

theorem ok_iff_status_2xx:
  assumes "fetch h session url options w = (Returned (Fulfilled a), w')"
      and "session (last (sent w')) = Some c"
  shows "status (heap w' ! a) = status_code c
         \<and> ok (heap w' ! a) = (200 \<le> status (heap w' ! a) \<and> status (heap w' ! a) < 300)
         \<and> (status_code c = 404 \<longrightarrow> \<not> ok (heap w' ! a))
         \<and> (status_code c = 204 \<longrightarrow> ok (heap w' ! a))"
proof -
  from assms(1) obtain u body c' r where
      c': "session (build_message h u options body) = Some c'"
      and r: "callback_try h u c' (length (heap w)) = Inr r"
      and a: "a = length (heap w)"
      and hp: "heap w' = heap w @ [r]"
      and st: "sent w' = sent w @ [build_message h u options body]"
    by (rule fetch_fulfilledE)
  from st c' assms(2) have "c' = c" by simp
  with callback_try_fields(2,3)[OF r]
  have "status r = status_code c" and "ok r = (200 \<le> status_code c \<and> status_code c < 300)"
    by simp_all
  moreover from a hp have "heap w' ! a = r" by simp
  ultimately show ?thesis by simp
qed

theorem ok_iff_status_2xx_witness:
  "\<not> ok (heap (snd (fetch ascii_host (reply (completed 404 ''Not Found'' None))
                      (JStr ''https://x/y'') no_options w0)) ! 0)
   \<and> ok (heap (snd (fetch ascii_host (reply (completed 204 ''No Content'' None))
                      (JStr ''https://x/y'') no_options w0)) ! 0)"
proof -
  let ?c1 = "completed 404 ''Not Found'' None"
  let ?c2 = "completed 204 ''No Content'' None"
  obtain w1 where run1: "fetch ascii_host (reply ?c1) (JStr ''https://x/y'') no_options w0
                           = (Returned (Fulfilled 0), w1)"
    by (simp add: run_get)
  obtain w2 where run2: "fetch ascii_host (reply ?c2) (JStr ''https://x/y'') no_options w0
                           = (Returned (Fulfilled 0), w2)"
    by (simp add: run_get)
  have c1: "reply ?c1 (last (sent w1)) = Some ?c1" and c2: "reply ?c2 (last (sent w2)) = Some ?c2"
    by (simp_all add: reply_def)
  have s: "status_code ?c1 = 404" "status_code ?c2 = 204"
    by (simp_all add: completed_def)
  from ok_iff_status_2xx [where session = "reply ?c1", OF run1 c1]
       ok_iff_status_2xx [where session = "reply ?c2", OF run2 c2]
  show ?thesis
    by (simp add: run1 run2 s)
qed

text \<open>
  C6. For every fulfilled promise with response reference \<open>a\<close>: \<^verbatim>\<open>json()\<close> gives
  \<^verbatim>\<open>JSON.parse\<close> applied to what \<^verbatim>\<open>text()\<close> gives, both read the text held by the one
  response object, and \<open>n\<close> successive calls of either accessor give \<open>n\<close> equal results
  and leave the world as it was.
\<close>

theorem json_is_parse_of_text:
  assumes "fetch h session url options w = (Returned (Fulfilled a), w')"
  shows "a < length (heap w')
         \<and> fst (text_call a w') = responseBody (heap w' ! a)
         \<and> fst (json_call h a w') = JSON_parse h (fst (text_call a w'))
         \<and> repeat_call (text_call a) n w' = (replicate n (fst (text_call a w')), w')
         \<and> repeat_call (json_call h a) n w' = (replicate n (fst (json_call h a w')), w')"
proof -
  from assms obtain r where "a = length (heap w)" and "heap w' = heap w @ [r]"
    by (rule fetch_fulfilledE)
  then have "a < length (heap w')" by simp
  moreover have "text_call a w' = (fst (text_call a w'), w')"
    by (simp add: text_call_fixed)
  then have "repeat_call (text_call a) n w' = (replicate n (fst (text_call a w')), w')"
    by (rule repeat_call_fixed)
  moreover have "json_call h a w' = (fst (json_call h a w'), w')"
    by (simp add: json_call_fixed)
  then have "repeat_call (json_call h a) n w' = (replicate n (fst (json_call h a w')), w')"
    by (rule repeat_call_fixed)
  ultimately show ?thesis
    by (simp add: text_call_fixed json_call_fixed)
qed

theorem json_is_parse_of_text_witness:
  "fst (repeat_call (json_call ascii_host 0) 2 (snd (fetch ascii_host
       (reply (completed 200 ''OK'' (Some (GBytes (Some [0x7B, 0x7D])))))
       (JStr ''https://x/y'') no_options w0))) = [Inr (JObj []), Inr (JObj [])]
   \<and> fst (repeat_call (text_call 0) 2 (snd (fetch ascii_host
       (reply (completed 200 ''OK'' (Some (GBytes (Some [0x7B, 0x7D])))))
       (JStr ''https://x/y'') no_options w0))) = [''{}'', ''{}'']"
proof -
  let ?c = "completed 200 ''OK'' (Some (GBytes (Some [0x7B, 0x7D])))"
  obtain w' where run: "fetch ascii_host (reply ?c) (JStr ''https://x/y'') no_options w0
                          = (Returned (Fulfilled 0), w')"
      and body: "responseBody (heap w' ! 0) = ''{}''"
    by (simp add: run_get char_of_def bit_0)
  have p: "JSON_parse ascii_host ''{}'' = Inr (JObj [])"
    by (simp add: ascii_host_def)
  from json_is_parse_of_text [where session = "reply ?c", OF run, of 2] show ?thesis
    by (simp add: run body p numeral_2_eq_2)
qed

text \<open>
  C9. For every fulfilled promise with response reference \<open>a\<close>, \<^verbatim>\<open>clone()\<close> returns the
  reference \<open>a\<close> itself and allocates nothing, so whatever is observed through the
  clone is what is observed through the original.
\<close>

theorem clone_is_same_object:
  assumes "fetch h session url options w = (Returned (Fulfilled a), w')"
  shows "a < length (heap w')
         \<and> clone_call a w' = (a, w')
         \<and> observe (fst (clone_call a w')) (snd (clone_call a w')) = observe a w'"
proof -
  from assms obtain u c r where
      r: "callback_try h u c (length (heap w)) = Inr r"
      and a: "a = length (heap w)"
      and hp: "heap w' = heap w @ [r]"
    by (rule fetch_fulfilledE)
  from a hp have "heap w' ! a = r" and "a < length (heap w')" by simp_all
  moreover from callback_try_fields(4)[OF r] a have "clone_target r = a" by simp
  ultimately show ?thesis
    by (simp add: clone_call_def)
qed

theorem clone_is_same_object_witness:
  "clone_call 0 (snd (fetch ascii_host (reply (completed 200 ''OK'' None))
                        (JStr ''https://x/y'') no_options w0))
     = (0, snd (fetch ascii_host (reply (completed 200 ''OK'' None))
                        (JStr ''https://x/y'') no_options w0))
   \<and> text_call (fst (clone_call 0 (snd (fetch ascii_host (reply (completed 200 ''OK'' None))
                        (JStr ''https://x/y'') no_options w0))))
        (snd (fetch ascii_host (reply (completed 200 ''OK'' None)) (JStr ''https://x/y'') no_options w0))
     = text_call 0
        (snd (fetch ascii_host (reply (completed 200 ''OK'' None)) (JStr ''https://x/y'') no_options w0))"
proof -
  let ?c = "completed 200 ''OK'' None"
  obtain w' where run: "fetch ascii_host (reply ?c) (JStr ''https://x/y'') no_options w0
                          = (Returned (Fulfilled 0), w')"
    by (simp add: run_get)
  from clone_is_same_object [where session = "reply ?c", OF run, of text_call] show ?thesis
    by (simp add: run)
qed

subsection \<open>Errors raised in the completion callback\<close>

text \<open>
  C8. When the \<^verbatim>\<open>try\<close> block of the completion callback throws a value \<open>e\<close>, the promise
  is rejected with \<open>e\<close> itself and no response object is allocated; in particular,
  when the source object is present and \<^verbatim>\<open>send_and_read_finish\<close> throws, \<open>e\<close> is
  exactly the value it threw.
\<close>

theorem callback_error_rejects_unchanged:
  assumes "URL_canParse h url" and "URL_parse h url = Some u"
      and "coerce_body h (init_body options) = Inr body"
      and "session (build_message h u options body) = Some c"
      and "callback_try h u c (length (heap w)) = Inl e"
  shows "fetch h session url options w
           = (Returned (Rejected e), w\<lparr>sent := sent w @ [build_message h u options body]\<rparr>)
         \<and> (source_present c \<longrightarrow> (\<forall>e'. finish c = Inl e' \<longrightarrow> e' = e))"
proof -
  from assms(5) have "source_present c \<longrightarrow> (\<forall>e'. finish c = Inl e' \<longrightarrow> e' = e)"
    by (auto simp: callback_try_def)
  with assms(5) show ?thesis
    by (simp add: fetch_completed [where session = session, OF assms(1-4)] callback_def)
qed

theorem callback_error_rejects_unchanged_witness:
  "fetch ascii_host (reply (failed (GLibError ''g-io-error-quark'' 39 ''Connection refused'')))
     (JStr ''https://x/y'') no_options w0
     = (Returned (Rejected (GLibError ''g-io-error-quark'' 39 ''Connection refused'')),
        \<lparr> sent = [\<lparr> msg_method = ''GET'', msg_uri = ''https://x/y'',
                     request_headers = [], request_body = None \<rparr>],
          heap = [] \<rparr>)"
proof -
  let ?e = "GLibError ''g-io-error-quark'' 39 ''Connection refused''"
  have p: "URL_canParse ascii_host (JStr ''https://x/y'')"
      "URL_parse ascii_host (JStr ''https://x/y'') = Some ''https://x/y''"
      "coerce_body ascii_host (init_body no_options) = Inr None"
    by (simp_all add: ascii_host_def https_url_def coerce_body_def no_options_def)
  have s: "reply (failed ?e) (build_message ascii_host ''https://x/y'' no_options None) = Some (failed ?e)"
    by (simp add: reply_def)
  have t: "callback_try ascii_host ''https://x/y'' (failed ?e) (length (heap w0)) = Inl ?e"
    by (simp add: callback_try_def failed_def)
  have m: "build_message ascii_host ''https://x/y'' no_options None
             = \<lparr> msg_method = ''GET'', msg_uri = ''https://x/y'',
                 request_headers = [], request_body = None \<rparr>"
    by (simp add: build_message_def no_options_def Object_entries_def)
  from callback_error_rejects_unchanged [where session = "reply (failed ?e)", OF p s t]
  show ?thesis
    by (simp add: m w0_def)
qed

subsection \<open>Invalid URLs\<close>

text \<open>
  C4, as the code has it. When \<^verbatim>\<open>URL.canParse(url)\<close> is false (or \<^verbatim>\<open>URL.parse\<close> gives
  null), the call throws: no promise is returned, nothing is sent and nothing is
  allocated. The thrown \<^verbatim>\<open>Error\<close> names the \<^verbatim>\<open>typeof\<close> of the url in its message and
  has no cause; the url value itself is not part of it.
\<close>

theorem invalid_url_throws_synchronously:
  assumes "URL_canParse h url \<longrightarrow> URL_parse h url = None"
  shows "fetch h session url options w
           = (Threw (JsError (''Invalid URL. Expected a string or URL object, got ''
                              @ typeof url
                              @ ''. This failed because URL.canParse returned false.'') None),
              w)"
  using assms by (simp add: fetch_def)

theorem invalid_url_throws_synchronously_witness:
  "fetch ascii_host (reply (completed 200 ''OK'' None)) (JStr ''not a url'') no_options w0
     = (Threw (JsError ''Invalid URL. Expected a string or URL object, got string. This failed because URL.canParse returned false.'' None),
        w0)"
proof -
  have "URL_canParse ascii_host (JStr ''not a url'')
          \<longrightarrow> URL_parse ascii_host (JStr ''not a url'') = None"
    by (simp add: ascii_host_def https_url_def)
  from invalid_url_throws_synchronously [OF this] show ?thesis
    by simp
qed

text \<open>
  C4, as stated, fails: the error does not identify the offending value. Two
  different unparseable strings make the call throw one and the same error, whose
  cause is absent.
\<close>

theorem invalid_url_error_omits_value:
  "JStr ''not a url'' \<noteq> JStr ''nope''
   \<and> fst (fetch ascii_host (reply (completed 200 ''OK'' None)) (JStr ''not a url'') no_options w0)
       = Threw (JsError ''Invalid URL. Expected a string or URL object, got string. This failed because URL.canParse returned false.'' None)
   \<and> fst (fetch ascii_host (reply (completed 200 ''OK'' None)) (JStr ''nope'') no_options w0)
       = fst (fetch ascii_host (reply (completed 200 ''OK'' None)) (JStr ''not a url'') no_options w0)"
  by (simp add: fetch_def ascii_host_def https_url_def)

subsection \<open>The request body\<close>

text \<open>
  C2, as the code has it. With a parseable URL, every truthy body value that is
  neither a string nor a \<^verbatim>\<open>Uint8Array\<close> makes the call return a promise rejected with
  an \<^verbatim>\<open>Error\<close> whose message names the \<^verbatim>\<open>typeof\<close> of the value and whose cause is the
  value; nothing is sent. Every falsy body value is taken as no body: the call does
  exactly what it does with \<^verbatim>\<open>body\<close> undefined, and its message is sent with no body
  attached.
\<close>

theorem unsupported_body_rejects:
  assumes "URL_canParse h url" and "URL_parse h url = Some u"
  shows "(truthy (init_body options) \<and> typeof (init_body options) \<noteq> ''string''
            \<and> \<not> instanceof_Uint8Array (init_body options) \<longrightarrow>
          fetch h session url options w
            = (Returned (Rejected (JsError
                 (''Unsupported body type. Expected a string or Uint8Array, got ''
                  @ typeof (init_body options) @ ''.'')
                 (Some (init_body options)))),
               w))
         \<and> (\<not> truthy (init_body options) \<longrightarrow>
              fetch h session url options w
                = fetch h session url (options\<lparr>init_body := JUndefined\<rparr>) w
              \<and> sent (snd (fetch h session url options w))
                  = sent w @ [build_message h u options None]
              \<and> request_body (build_message h u options None) = None)"
proof (intro conjI impI)
  assume "truthy (init_body options) \<and> typeof (init_body options) \<noteq> ''string''
            \<and> \<not> instanceof_Uint8Array (init_body options)"
  then have "coerce_body h (init_body options)
      = Inl (JsError (''Unsupported body type. Expected a string or Uint8Array, got ''
                      @ typeof (init_body options) @ ''.'') (Some (init_body options)))"
    by (cases "init_body options") (simp_all add: coerce_body_def)
  with assms show "fetch h session url options w
            = (Returned (Rejected (JsError
                 (''Unsupported body type. Expected a string or Uint8Array, got ''
                  @ typeof (init_body options) @ ''.'')
                 (Some (init_body options)))),
               w)"
    by (simp add: fetch_def executor_def)
next
  assume falsy: "\<not> truthy (init_body options)"
  then have none: "coerce_body h (init_body options) = Inr None"
    by (simp add: coerce_body_def)
  then have "executor h session u options w
               = executor h session u (options\<lparr>init_body := JUndefined\<rparr>) w"
    by (simp add: executor_def coerce_body_def build_message_init_body)
  with assms show "fetch h session url options w
                     = fetch h session url (options\<lparr>init_body := JUndefined\<rparr>) w"
    by (simp add: fetch_def)
  from none assms show "sent (snd (fetch h session url options w))
                          = sent w @ [build_message h u options None]"
    by (simp add: fetch_parsed executor_sends)
  show "request_body (build_message h u options None) = None"
    by (simp add: build_message_body)
qed

theorem unsupported_body_rejects_witness:
  "fetch ascii_host (reply (completed 200 ''OK'' None)) (JStr ''https://x/y'')
     (no_options\<lparr>init_body := JNum 42\<rparr>) w0
     = (Returned (Rejected (JsError
          ''Unsupported body type. Expected a string or Uint8Array, got number.''
          (Some (JNum 42)))), w0)
   \<and> fetch ascii_host (reply (completed 200 ''OK'' None)) (JStr ''https://x/y'')
       (no_options\<lparr>init_body := JObj [(''a'', JNum 1)]\<rparr>) w0
     = (Returned (Rejected (JsError
          ''Unsupported body type. Expected a string or Uint8Array, got object.''
          (Some (JObj [(''a'', JNum 1)])))), w0)
   \<and> fetch ascii_host (reply (completed 200 ''OK'' None)) (JStr ''https://x/y'')
       (no_options\<lparr>init_body := JBool False\<rparr>) w0
     = fetch ascii_host (reply (completed 200 ''OK'' None)) (JStr ''https://x/y'')
         no_options w0"
proof -
  have p: "URL_canParse ascii_host (JStr ''https://x/y'')"
      "URL_parse ascii_host (JStr ''https://x/y'') = Some ''https://x/y''"
    by (simp_all add: ascii_host_def https_url_def)
  have u: "no_options\<lparr>init_body := JUndefined\<rparr> = no_options"
    by (simp add: no_options_def)
  from unsupported_body_rejects
         [OF p, of "no_options\<lparr>init_body := JNum 42\<rparr>" "reply (completed 200 ''OK'' None)" w0]
       unsupported_body_rejects
         [OF p, of "no_options\<lparr>init_body := JObj [(''a'', JNum 1)]\<rparr>"
            "reply (completed 200 ''OK'' None)" w0]
       unsupported_body_rejects
         [OF p, of "no_options\<lparr>init_body := JBool False\<rparr>"
            "reply (completed 200 ''OK'' None)" w0]
  show ?thesis
    by (simp add: u)
qed

text \<open>
  C2, as stated, fails: the number 0 is neither a string nor a byte sequence, and a
  call with it as body is not rejected. The request goes out without a body and the
  promise is fulfilled.
\<close>

theorem falsy_body_is_not_rejected:
  "typeof (JNum 0) \<noteq> ''string'' \<and> \<not> instanceof_Uint8Array (JNum 0)
   \<and> \<not> is_rejected (fst (fetch ascii_host (reply (completed 200 ''OK'' None))
                           (JStr ''https://x/y'') (no_options\<lparr>init_body := JNum 0\<rparr>) w0))
   \<and> fst (fetch ascii_host (reply (completed 200 ''OK'' None))
            (JStr ''https://x/y'') (no_options\<lparr>init_body := JNum 0\<rparr>) w0) = Returned (Fulfilled 0)
   \<and> map request_body (sent (snd (fetch ascii_host (reply (completed 200 ''OK'' None))
            (JStr ''https://x/y'') (no_options\<lparr>init_body := JNum 0\<rparr>) w0))) = [None]"
  by (simp add: fetch_def executor_def coerce_body_def build_message_body callback_def
      callback_try_def responseHeaders_def valid_header_def is_tchar_def ascii_host_def
      https_url_def reply_def completed_def no_options_def w0_def
      Let_def)

text \<open>
  C3, as the code has it. With a parseable URL and a string or \<^verbatim>\<open>Uint8Array\<close> body the
  call sends one message. For a non-empty string body the message carries the host's
  encoding of that string, tagged \<^verbatim>\<open>text/plain\<close>; for a \<^verbatim>\<open>Uint8Array\<close> body whose
  decoding is non-empty it carries the encoding of that decoded text, tagged
  \<^verbatim>\<open>text/plain\<close>; for an empty string, or bytes that decode to the empty string, no
  body and no content type are attached.
\<close>

theorem body_sent_as_text_plain:
  assumes "URL_canParse h url" and "URL_parse h url = Some u"
      and "snd (fetch h session url options w) = w'"
  shows "(init_body options = JStr s \<longrightarrow>
            length (sent w') = Suc (length (sent w))
            \<and> request_body (last (sent w'))
                = (if s \<noteq> [] then Some (''text/plain'', TextEncoder_encode h s) else None))
         \<and> (init_body options = JBytes bs \<longrightarrow>
            length (sent w') = Suc (length (sent w))
            \<and> request_body (last (sent w'))
                = (if TextDecoder_decode h bs \<noteq> []
                   then Some (''text/plain'', TextEncoder_encode h (TextDecoder_decode h bs))
                   else None))"
proof -
  have sent: "sent w' = sent w @ [build_message h u options body]"
    if "coerce_body h (init_body options) = Inr body" for body
    using that assms(1,2) unfolding assms(3) [symmetric]
    by (simp add: fetch_parsed executor_sends)
  have "coerce_body h (JStr s) = Inr (if s \<noteq> [] then Some s else None)"
    by (simp add: coerce_body_def)
  moreover have "coerce_body h (JBytes bs) = Inr (Some (TextDecoder_decode h bs))"
    by (simp add: coerce_body_def)
  ultimately show ?thesis
    by (auto simp: sent build_message_body)
qed

theorem body_sent_as_text_plain_witness:
  "map request_body (sent (snd (fetch ascii_host (reply (completed 200 ''OK'' None))
       (JStr ''https://x/y'') (no_options\<lparr>init_body := JStr ''z''\<rparr>) w0)))
     = [Some (''text/plain'', [0x7A])]
   \<and> map request_body (sent (snd (fetch ascii_host (reply (completed 200 ''OK'' None))
       (JStr ''https://x/y'') (no_options\<lparr>init_body := JBytes [0x7B, 0x7D]\<rparr>) w0)))
     = [Some (''text/plain'', [0x7B, 0x7D])]"
proof -
  let ?s = "reply (completed 200 ''OK'' None)"
  let ?o1 = "no_options\<lparr>init_body := JStr ''z''\<rparr>"
  let ?o2 = "no_options\<lparr>init_body := JBytes [0x7B, 0x7D]\<rparr>"
  have p: "URL_canParse ascii_host (JStr ''https://x/y'')"
      "URL_parse ascii_host (JStr ''https://x/y'') = Some ''https://x/y''"
    by (simp_all add: ascii_host_def https_url_def)
  obtain w1 where w1: "snd (fetch ascii_host ?s (JStr ''https://x/y'') ?o1 w0) = w1"
    by simp
  obtain w2 where w2: "snd (fetch ascii_host ?s (JStr ''https://x/y'') ?o2 w0) = w2"
    by simp
  have e: "TextEncoder_encode ascii_host ''z'' = [0x7A]"
      "TextDecoder_decode ascii_host [0x7B, 0x7D] = ''{}''"
      "TextEncoder_encode ascii_host ''{}'' = [0x7B, 0x7D]"
    by (simp_all add: ascii_host_def char_of_def bit_0)
  from body_sent_as_text_plain [where session = ?s, OF p w1, of "''z''" "[]"]
  have "length (sent w1) = 1" and "request_body (last (sent w1)) = Some (''text/plain'', [0x7A])"
    by (simp_all add: e w0_fields)
  then have r1: "map request_body (sent w1) = [Some (''text/plain'', [0x7A])]"
    by (cases "sent w1") simp_all
  from body_sent_as_text_plain [where session = ?s, OF p w2, of "[]" "[0x7B, 0x7D]"]
  have "length (sent w2) = 1"
    and "request_body (last (sent w2)) = Some (''text/plain'', [0x7B, 0x7D])"
    by (simp_all add: e w0_fields)
  then have r2: "map request_body (sent w2) = [Some (''text/plain'', [0x7B, 0x7D])]"
    by (cases "sent w2") simp_all
  from r1 r2 show ?thesis
    by (simp add: w1 w2)
qed

text \<open>
  C3, as stated, fails for the empty string: it is a string, yet the message that is
  sent has no body attached and so carries no \<^verbatim>\<open>text/plain\<close> tag.
\<close>

theorem empty_string_body_is_untagged:
  "typeof (JStr []) = ''string''
   \<and> map request_body (sent (snd (fetch ascii_host (reply (completed 200 ''OK'' None))
        (JStr ''https://x/y'') (no_options\<lparr>init_body := JStr []\<rparr>) w0))) = [None]"
  by (simp add: fetch_def executor_def coerce_body_def build_message_body callback_def
      callback_try_def responseHeaders_def valid_header_def is_tchar_def ascii_host_def
      https_url_def reply_def completed_def no_options_def w0_def
      Let_def)

subsection \<open>Request headers\<close>

text \<open>
  C7, as the code has it. With a parseable URL and an accepted body, the message
  that is sent carries one appended header line for every entry of the header
  mapping (as a multiset, the lines are the entries), in the order of
  \<^verbatim>\<open>Object.entries\<close>: keys that are array indices first, in ascending numeric order,
  then the other keys in insertion order. When no key is an array index, the lines
  are the entries in insertion order.
\<close>

theorem headers_appended_in_entries_order:
  assumes "URL_canParse h url" and "URL_parse h url = Some u"
      and "coerce_body h (init_body options) = Inr body"
      and "init_headers options = Some hs"
  shows "sent (snd (fetch h session url options w))
           = sent w @ [build_message h u options body]
         \<and> request_headers (build_message h u options body) = Object_entries hs
         \<and> mset (Object_entries hs) = mset hs
         \<and> ((\<forall>p \<in> set hs. \<not> is_array_index (fst p)) \<longrightarrow> Object_entries hs = hs)"
  using assms
  by (simp add: fetch_parsed executor_sends build_message_headers Object_entries_mset
      Object_entries_no_index)

theorem headers_appended_in_entries_order_witness:
  "map request_headers (sent (snd (fetch ascii_host (reply (completed 200 ''OK'' None))
       (JStr ''https://x/y'')
       (no_options\<lparr>init_headers := Some [(''X-B'', ''2''), (''X-A'', ''1''), (''x-b'', ''3'')]\<rparr>) w0)))
     = [[(''X-B'', ''2''), (''X-A'', ''1''), (''x-b'', ''3'')]]"
proof -
  let ?hs = "[(''X-B'', ''2''), (''X-A'', ''1''), (''x-b'', ''3'')]"
  let ?o = "no_options\<lparr>init_headers := Some ?hs\<rparr>"
  have p: "URL_canParse ascii_host (JStr ''https://x/y'')"
      "URL_parse ascii_host (JStr ''https://x/y'') = Some ''https://x/y''"
      "coerce_body ascii_host (init_body ?o) = Inr None"
      "init_headers ?o = Some ?hs"
    by (simp_all add: ascii_host_def https_url_def coerce_body_def no_options_def)
  have n: "\<forall>p \<in> set ?hs. \<not> is_array_index (fst p)"
    by (simp add: is_array_index_def is_digit_def)
  from headers_appended_in_entries_order
         [where session = "reply (completed 200 ''OK'' None)" and w = w0, OF p] n
  show ?thesis
    by (simp add: w0_fields)
qed

text \<open>
  C7, as stated, fails for a key that is an array index: the mapping
  \<^verbatim>\<open>{"X-A": "1", "7": "z"}\<close> is sent with the line for \<^verbatim>\<open>7\<close> first, which is not the
  mapping's insertion order.
\<close>

theorem index_keys_are_sent_first:
  "map request_headers (sent (snd (fetch ascii_host (reply (completed 200 ''OK'' None))
       (JStr ''https://x/y'')
       (no_options\<lparr>init_headers := Some [(''X-A'', ''1''), (''7'', ''z'')]\<rparr>) w0)))
     = [[(''7'', ''z''), (''X-A'', ''1'')]]
   \<and> [(''7'', ''z''), (''X-A'', ''1'')] \<noteq> [(''X-A'', ''1''), (''7'', ''z'')]"
  by (simp add: fetch_def executor_def coerce_body_def build_message_headers callback_def
      callback_try_def responseHeaders_def valid_header_def is_tchar_def Object_entries_def
      is_array_index_def is_digit_def digits_val_def
      ascii_host_def https_url_def reply_def completed_def no_options_def w0_def Let_def)

end
